theory Spec2Isabelle
  imports Main "HOL-Library.Multiset"
begin

section \<open>JavaScript strings (queryTools.ts)\<close>

text \<open>
  A JavaScript string is modelled as an Isabelle \<open>string\<close>, one \<open>char\<close> per code unit.
  The character classes below are the ASCII part of the ECMAScript ones, so the model is
  exact on ASCII text: \<open>trim\<close> and \<open>.\<close> know further white space and line terminators
  beyond U+007F, and \<open>toUpperCase\<close> maps letters beyond U+007F, which the model leaves
  alone.
\<close>

definition is_line_terminator :: "char \<Rightarrow> bool" where
  \<comment> \<open>what \<open>.\<close> does not match and \<open>$\<close> (flag m) stops before: LF and CR\<close>
  "is_line_terminator c = (c = CHR 0x0A \<or> c = CHR 0x0D)"

definition is_space :: "char \<Rightarrow> bool" where
  \<comment> \<open>what \<open>String.prototype.trim\<close> removes: TAB, LF, VT, FF, CR, SPACE\<close>
  "is_space c = (c \<in> set [CHR 0x09, CHR 0x0A, CHR 0x0B, CHR 0x0C, CHR 0x0D, CHR 0x20])"

definition is_word_char :: "char \<Rightarrow> bool" where
  \<comment> \<open>the class \<open>\w\<close>, which decides where \<open>\b\<close> holds\<close>
  "is_word_char c =
     (c \<in> set ''ABCDEFGHIJKLMNOPQRSTUVWXYZabcdefghijklmnopqrstuvwxyz0123456789_'')"

definition upper_char :: "char \<Rightarrow> char" where
  "upper_char c =
     (case map_of (zip ''abcdefghijklmnopqrstuvwxyz'' ''ABCDEFGHIJKLMNOPQRSTUVWXYZ'') c of
        Some u \<Rightarrow> u
      | None \<Rightarrow> c)"

definition toUpperCase :: "string \<Rightarrow> string" where
  "toUpperCase s = map upper_char s"

definition trim :: "string \<Rightarrow> string" where
  "trim s = rev (dropWhile is_space (rev (dropWhile is_space s)))"

definition startsWith :: "string \<Rightarrow> string \<Rightarrow> bool" where
  "startsWith s p = (take (length p) s = p)"

definition endsWith :: "string \<Rightarrow> string \<Rightarrow> bool" where
  "endsWith s p = (length p \<le> length s \<and> drop (length s - length p) s = p)"

fun digit_char :: "nat \<Rightarrow> char" where
  "digit_char n = ''0123456789'' ! (n mod 10)"

fun string_of_nat :: "nat \<Rightarrow> string" where
  "string_of_nat n =
     (if n < 10 then [digit_char n] else string_of_nat (n div 10) @ [digit_char n])"

definition string_of_int :: "int \<Rightarrow> string" where
  \<comment> \<open>how a template literal renders an integral number\<close>
  "string_of_int i = (if i < 0 then ''-'' @ string_of_nat (nat (- i)) else string_of_nat (nat i))"

subsection \<open>stripComments\<close>

text \<open>
  \<^verbatim>\<open>sql.replace(/\/\*[\s\S]*?\*\//g, " ").replace(/--.*$/gm, " ")\<close>

  The first replacement scans from the left: where the text reads \<open>/*\<close> and a \<open>*/\<close>
  follows those two characters, everything up to the nearest such \<open>*/\<close> becomes one
  space and the scan goes on behind it; an opener with no closer stays as it is. The
  second replacement turns \<open>--\<close> and the rest of its line into one space; the line
  terminator stays.
\<close>

fun after_block_end :: "string \<Rightarrow> string option" where
  "after_block_end (a # b # cs) =
     (if a = CHR ''*'' \<and> b = CHR ''/'' then Some cs else after_block_end (b # cs))"
| "after_block_end _ = None"

lemma after_block_end_shorter: "after_block_end s = Some r \<Longrightarrow> length r < length s"
  by (induction s rule: after_block_end.induct) (auto split: if_splits)

function stripBlockComments :: "string \<Rightarrow> string" where
  "stripBlockComments [] = []"
| "stripBlockComments (c # cs) =
     (if startsWith (c # cs) ''/*'' then
        (case after_block_end (drop 1 cs) of
           Some rest \<Rightarrow> CHR '' '' # stripBlockComments rest
         | None \<Rightarrow> c # stripBlockComments cs)
      else c # stripBlockComments cs)"
  by pat_completeness auto
termination
proof (relation "measure length")
  fix c cs rest
  assume "after_block_end (drop 1 cs) = Some rest"
  then have "length rest < length (drop 1 cs)"
    by (rule after_block_end_shorter)
  then show "(rest, c # cs) \<in> measure length"
    by simp
qed auto

function stripLineComments :: "string \<Rightarrow> string" where
  "stripLineComments [] = []"
| "stripLineComments (c # cs) =
     (if startsWith (c # cs) ''--'' then
        CHR '' '' # stripLineComments (dropWhile (\<lambda>x. \<not> is_line_terminator x) (drop 1 cs))
      else c # stripLineComments cs)"
  by pat_completeness auto
termination
proof (relation "measure length")
  fix c cs
  have "length (dropWhile (\<lambda>x. \<not> is_line_terminator x) (drop 1 cs)) \<le> length (drop 1 cs)"
    by (rule length_dropWhile_le)
  then show "(dropWhile (\<lambda>x. \<not> is_line_terminator x) (drop 1 cs), c # cs) \<in> measure length"
    by simp
qed auto

definition stripComments :: "string \<Rightarrow> string" where
  "stripComments sql = stripLineComments (stripBlockComments sql)"

subsection \<open>Whole-word tests\<close>

text \<open>
  \<^verbatim>\<open>/\b(W1|...|Wn)\b/.test(s)\<close> holds when at some position \<open>i\<close> of \<open>s\<close> one of the
  alternatives stands between two word boundaries. \<open>\b\<close> holds at \<open>i\<close> when exactly one
  of the characters before and after \<open>i\<close> is a word character, the two ends of the text
  counting as no word character.
\<close>

definition word_boundary :: "string \<Rightarrow> nat \<Rightarrow> bool" where
  "word_boundary s i =
     ((0 < i \<and> is_word_char (s ! (i - 1))) \<noteq> (i < length s \<and> is_word_char (s ! i)))"

definition matches_word_at :: "string \<Rightarrow> nat \<Rightarrow> string \<Rightarrow> bool" where
  "matches_word_at s i w =
     (word_boundary s i \<and> take (length w) (drop i s) = w \<and> word_boundary s (i + length w))"

definition word_regex_test :: "string list \<Rightarrow> string \<Rightarrow> bool" where
  "word_regex_test alts s =
     list_ex (\<lambda>i. list_ex (matches_word_at s i) alts) [0..<Suc (length s)]"

definition forbidden :: "string list" where
  "forbidden = [''INSERT'', ''UPDATE'', ''DELETE'', ''DROP'', ''ALTER'', ''CREATE'', ''TRUNCATE'',
     ''MERGE'', ''EXEC'', ''EXECUTE'', ''GRANT'', ''REVOKE'', ''DENY'', ''WAITFOR'', ''DBCC'',
     ''OPENROWSET'', ''OPENDATASOURCE'', ''BULK'', ''SHUTDOWN'']"

definition containsForbiddenTokens :: "string \<Rightarrow> bool" where
  "containsForbiddenTokens sqlUpper = word_regex_test forbidden sqlUpper"

section \<open>The tool db.select (queryTools.ts)\<close>

text \<open>
  A thrown JavaScript \<open>Error\<close> is a value \<open>Error message\<close>; a function that may throw
  returns \<open>exn + 'a\<close>, \<open>Inl\<close> for the throw. What a tool handler returns is either
  \<open>{ isError: true, content: [text] }\<close> or \<open>{ content: [JSON.stringify(payload)] }\<close>; the
  model keeps the payload that is serialised.
\<close>

datatype exn = Error string

datatype 'p ToolResult = IsError string | Content 'p

record 'r SelectPayload =
  rowCount :: nat
  cappedAt :: int
  data :: "'r list"

definition inputSchema_db_select :: "string \<Rightarrow> int option \<Rightarrow> bool" where
  \<comment> \<open>\<open>sql: z.string().min(1)\<close>, \<open>maxRows: z.number().int().min(1).max(200).optional()\<close>\<close>
  "inputSchema_db_select sql maxRows =
     (1 \<le> length sql \<and> (case maxRows of None \<Rightarrow> True | Some m \<Rightarrow> 1 \<le> m \<and> m \<le> 200))"

definition row_limit :: "int option \<Rightarrow> int" where
  \<comment> \<open>\<open>const limit = Math.min(maxRows ?? 100, 200)\<close>\<close>
  "row_limit maxRows = min (case maxRows of None \<Rightarrow> 100 | Some m \<Rightarrow> m) 200"

definition multiple_statements_text :: string where
  "multiple_statements_text =
     ''Only a single SELECT statement is allowed (no multiple statements).''"

definition only_select_text :: string where
  "only_select_text = ''Only SELECT queries are allowed (CTE starting with WITH is allowed).''"

definition forbidden_keyword_text :: string where
  "forbidden_keyword_text =
     ''Query rejected: forbidden keyword detected (write/exec/dangerous feature).''"

definition onlyTrailing :: "string \<Rightarrow> bool" where
  \<comment> \<open>\<open>q.endsWith(";") && q.slice(0, -1).indexOf(";") === -1\<close>\<close>
  "onlyTrailing q = (endsWith q '';'' \<and> CHR '';'' \<notin> set (butlast q))"

definition keyword_checks :: "string \<Rightarrow> string + string" where
  \<comment> \<open>lines 60 to 85 of the handler, on the statement \<open>q\<close> that reaches them: \<open>Inl\<close> the
      text of the error returned, \<open>Inr q\<close> when the handler goes on to run \<open>q\<close>\<close>
  "keyword_checks q =
     (let upper = toUpperCase q in
      if \<not> (startsWith upper ''SELECT'' \<or> startsWith upper ''WITH'') then Inl only_select_text
      else if containsForbiddenTokens upper \<or> word_regex_test [''INTO''] upper
      then Inl forbidden_keyword_text
      else Inr q)"

definition db_select_guard :: "string \<Rightarrow> string + string" where
  \<comment> \<open>lines 40 to 85 of the handler\<close>
  "db_select_guard sql =
     (let q = trim (stripComments sql) in
      if CHR '';'' \<in> set q then
        if \<not> onlyTrailing q then Inl multiple_statements_text
        else keyword_checks (trim (butlast q))
      else keyword_checks q)"

definition cappedBatch :: "int \<Rightarrow> string \<Rightarrow> string" where
  "cappedBatch limit q =
     [CHR 0x0A] @ ''        SET NOCOUNT ON;'' @ [CHR 0x0A, CHR 0x0A]
     @ ''        BEGIN TRY'' @ [CHR 0x0A]
     @ ''            SET ROWCOUNT '' @ string_of_int limit @ '';'' @ [CHR 0x0A]
     @ ''            '' @ q @ [CHR 0x0A]
     @ ''            SET ROWCOUNT 0;'' @ [CHR 0x0A]
     @ ''        END TRY'' @ [CHR 0x0A]
     @ ''        BEGIN CATCH'' @ [CHR 0x0A]
     @ ''            SET ROWCOUNT 0;'' @ [CHR 0x0A]
     @ ''            THROW;'' @ [CHR 0x0A]
     @ ''        END CATCH'' @ [CHR 0x0A]
     @ ''        ''"

text \<open>
  \<open>SQLClient.query\<close> is the parameter \<open>query\<close>: it throws or gives a result whose
  \<open>recordset\<close> may be undefined (\<open>None\<close>), which is why the handler reads it with
  \<open>?.\<close> and \<open>??\<close>.
\<close>

definition db_select ::
  "(string \<Rightarrow> exn + 'r list option) \<Rightarrow> string \<Rightarrow> int option \<Rightarrow> 'r SelectPayload ToolResult"
where
  "db_select query sql maxRows =
     (let limit = row_limit maxRows in
      case db_select_guard sql of
        Inl text \<Rightarrow> IsError text
      | Inr q \<Rightarrow>
          (case query (cappedBatch limit q) of
             Inl (Error message) \<Rightarrow> IsError (''SQL Error: '' @ message)
           | Inr recordset \<Rightarrow>
               Content \<lparr>rowCount = (case recordset of None \<Rightarrow> 0 | Some rows \<Rightarrow> length rows),
                        cappedAt = limit,
                        data = (case recordset of None \<Rightarrow> [] | Some rows \<Rightarrow> rows)\<rparr>))"

section \<open>SchemaService (schema.ts)\<close>

record TableInfo =
  tableName :: string
  schema :: string

datatype YesNo = YES | NO

record ColumnInfo =
  columnName :: string
  dataType :: string
  isNullable :: YesNo
  maxLength :: "int option"
  precision :: "int option"
  scale :: "int option"

record PrimaryKeyInfo =
  pk_tableName :: string
  pk_columnName :: string
  keyOrdinal :: int

record ForeignKeyInfo =
  fkName :: string
  fromSchema :: string
  fromTable :: string
  fromColumn :: string
  toSchema :: string
  toTable :: string
  toColumn :: string

text \<open>
  The fields \<open>tableName\<close> and \<open>columnName\<close> of \<open>PrimaryKeyInfo\<close> carry the prefix
  \<open>pk_\<close>, which keeps them apart from the fields of \<open>TableInfo\<close> and \<open>ColumnInfo\<close>; the
  fields of the two payload records below carry \<open>d_\<close> and \<open>c_\<close> for the same reason.
\<close>

definition DEFAULT_SCHEMA :: string where
  "DEFAULT_SCHEMA = ''SalesLT''"

definition getTargetSchema :: "string option \<Rightarrow> string" where
  \<comment> \<open>\<open>process.env.DB_SCHEMA ?? DEFAULT_SCHEMA\<close>, read once when the module loads\<close>
  "getTargetSchema env_DB_SCHEMA =
     (case env_DB_SCHEMA of None \<Rightarrow> DEFAULT_SCHEMA | Some s \<Rightarrow> s)"

text \<open>
  The backing store answers the four metadata queries of \<open>SchemaService\<close>, each for the
  bound parameters it is sent, by rows or by a thrown error. Every call of
  \<open>SQLClient.query\<close> is recorded in the field \<open>issued\<close> of the state, next to the two
  static caches of the class. The recordset of these SELECT statements is a list, as the
  code takes it to be.
\<close>

record Database =
  tables_rows :: "string \<Rightarrow> exn + TableInfo list"
  columns_rows :: "string \<Rightarrow> string \<Rightarrow> exn + ColumnInfo list"
  primaryKeys_rows :: "string \<Rightarrow> exn + PrimaryKeyInfo list"
  foreignKeys_rows :: "string \<Rightarrow> exn + ForeignKeyInfo list"

datatype Query =
    TablesQuery string
  | ColumnsQuery string string
  | PrimaryKeysQuery string
  | ForeignKeysQuery string

record State =
  tablesCache :: "TableInfo list option"
  columnsCache :: "string \<rightharpoonup> ColumnInfo list"
  issued :: "Query list"

definition initial_state :: State where
  "initial_state = \<lparr>tablesCache = None, columnsCache = Map.empty, issued = []\<rparr>"

definition issue :: "Query \<Rightarrow> State \<Rightarrow> State" where
  "issue q st = st\<lparr>issued := issued st @ [q]\<rparr>"

definition getTables :: "Database \<Rightarrow> string \<Rightarrow> State \<Rightarrow> (exn + TableInfo list) \<times> State" where
  "getTables db schemaName st =
     (case tablesCache st of
        Some cached \<Rightarrow> (Inr cached, st)
      | None \<Rightarrow>
          (let st1 = issue (TablesQuery schemaName) st in
           case tables_rows db schemaName of
             Inl e \<Rightarrow> (Inl e, st1)
           | Inr recordset \<Rightarrow> (Inr recordset, st1\<lparr>tablesCache := Some recordset\<rparr>)))"

definition cacheKey :: "string \<Rightarrow> string \<Rightarrow> string" where
  \<comment> \<open>the template literal \<open>${schema}.${tableName}\<close>\<close>
  "cacheKey schemaName name = schemaName @ ''.'' @ name"

definition not_found :: "string \<Rightarrow> string \<Rightarrow> exn" where
  "not_found schemaName name =
     Error (''Table not found or not allowed: '' @ schemaName @ ''.'' @ name)"

definition getTableSchema ::
  "Database \<Rightarrow> string \<Rightarrow> string \<Rightarrow> State \<Rightarrow> (exn + ColumnInfo list) \<times> State"
where
  "getTableSchema db schemaName name st =
     (case columnsCache st (cacheKey schemaName name) of
        Some cached \<Rightarrow> (Inr cached, st)
      | None \<Rightarrow>
          (case getTables db schemaName st of
             (Inl e, st1) \<Rightarrow> (Inl e, st1)
           | (Inr tables, st1) \<Rightarrow>
               if \<not> list_ex (\<lambda>t. tableName t = name \<and> schema t = schemaName) tables
               then (Inl (not_found schemaName name), st1)
               else
                 (let st2 = issue (ColumnsQuery schemaName name) st1 in
                  case columns_rows db schemaName name of
                    Inl e \<Rightarrow> (Inl e, st2)
                  | Inr recordset \<Rightarrow>
                      (Inr recordset,
                       st2\<lparr>columnsCache :=
                             (columnsCache st2)(cacheKey schemaName name \<mapsto> recordset)\<rparr>))))"

definition getPrimaryKeys ::
  "Database \<Rightarrow> string \<Rightarrow> State \<Rightarrow> (exn + PrimaryKeyInfo list) \<times> State"
where
  "getPrimaryKeys db schemaName st =
     (primaryKeys_rows db schemaName, issue (PrimaryKeysQuery schemaName) st)"

definition getForeignKeys ::
  "Database \<Rightarrow> string \<Rightarrow> State \<Rightarrow> (exn + ForeignKeyInfo list) \<times> State"
where
  "getForeignKeys db schemaName st =
     (foreignKeys_rows db schemaName, issue (ForeignKeysQuery schemaName) st)"

definition clearCache :: "State \<Rightarrow> State" where
  "clearCache st = st\<lparr>tablesCache := None, columnsCache := Map.empty\<rparr>"

text \<open>
  A process is a sequence of calls of the static methods, each against the backing store
  as it is at that moment (so the store may change between calls). The calls run one
  after the other: interleavings at the \<open>await\<close> points are outside this model.
\<close>

datatype Call =
    CallGetTables
  | CallGetTableSchema string
  | CallGetPrimaryKeys
  | CallGetForeignKeys
  | CallClearCache

fun call :: "string \<Rightarrow> Database \<times> Call \<Rightarrow> State \<Rightarrow> State" where
  "call schemaName (db, CallGetTables) st = snd (getTables db schemaName st)"
| "call schemaName (db, CallGetTableSchema name) st = snd (getTableSchema db schemaName name st)"
| "call schemaName (db, CallGetPrimaryKeys) st = snd (getPrimaryKeys db schemaName st)"
| "call schemaName (db, CallGetForeignKeys) st = snd (getForeignKeys db schemaName st)"
| "call schemaName (db, CallClearCache) st = clearCache st"

fun calls :: "string \<Rightarrow> (Database \<times> Call) list \<Rightarrow> State \<Rightarrow> State" where
  "calls schemaName [] st = st"
| "calls schemaName (c # cs) st = calls schemaName cs (call schemaName c st)"

section \<open>The schema tools (schemaTools.ts)\<close>

text \<open>
  \<open>Array.prototype.sort(compareFn)\<close> is stable and puts \<open>a\<close> before \<open>b\<close> when
  \<open>compareFn(a, b)\<close> is negative. The model is the stable insertion sort under the
  comparator.
\<close>

fun insert_by :: "('a \<Rightarrow> 'a \<Rightarrow> int) \<Rightarrow> 'a \<Rightarrow> 'a list \<Rightarrow> 'a list" where
  "insert_by compareFn x [] = [x]"
| "insert_by compareFn x (y # ys) =
     (if compareFn x y \<le> 0 then x # y # ys else y # insert_by compareFn x ys)"

definition js_sort :: "('a \<Rightarrow> 'a \<Rightarrow> int) \<Rightarrow> 'a list \<Rightarrow> 'a list" where
  "js_sort compareFn xs = foldr (insert_by compareFn) xs []"

record DescribePayload =
  d_tableName :: string
  d_columns :: "ColumnInfo list"
  d_primaryKeys :: "PrimaryKeyInfo list"

text \<open>
  A handler that throws (an \<open>async\<close> function whose promise rejects) returns \<open>Inl\<close>; one
  that returns gives \<open>Inr\<close> of its tool result. \<open>Promise.all\<close> starts both calls, so the
  primary-key query is issued whatever becomes of the column lookup, and the handler
  rejects when one of the two fails. When both fail, the code rejects with the error
  that comes first in time; the model gives the one of the column lookup.
\<close>

definition describeTable ::
  "Database \<Rightarrow> string \<Rightarrow> string \<Rightarrow> State \<Rightarrow> (exn + DescribePayload ToolResult) \<times> State"
where
  "describeTable db schemaName name st =
     (let (columns, st1) = getTableSchema db schemaName name st;
          (allPrimaryKeys, st2) = getPrimaryKeys db schemaName st1
      in case columns of
           Inl e \<Rightarrow> (Inl e, st2)
         | Inr columns \<Rightarrow>
             (case allPrimaryKeys of
                Inl e \<Rightarrow> (Inl e, st2)
              | Inr allPrimaryKeys \<Rightarrow>
                  (let primaryKeys =
                         js_sort (\<lambda>a b. keyOrdinal a - keyOrdinal b)
                           (filter (\<lambda>pk. pk_tableName pk = name) allPrimaryKeys)
                   in (Inr (Content \<lparr>d_tableName = name, d_columns = columns,
                                      d_primaryKeys = primaryKeys\<rparr>), st2))))"

record ContextPayload =
  c_schema :: string
  c_tables :: "TableInfo list"
  c_primaryKeys :: "PrimaryKeyInfo list"
  c_foreignKeys :: "ForeignKeyInfo list"
  c_note :: string

definition slice0 :: "'a list \<Rightarrow> int \<Rightarrow> 'a list" where
  \<comment> \<open>\<open>xs.slice(0, n)\<close>: a negative \<open>n\<close> counts from the end\<close>
  "slice0 xs n = (if n < 0 then take (length xs - nat (- n)) xs else take (nat n) xs)"

definition getDatabaseContext ::
  "Database \<Rightarrow> string option \<Rightarrow> int option \<Rightarrow> State \<Rightarrow> (exn + ContextPayload ToolResult) \<times> State"
where
  "getDatabaseContext db env_DB_SCHEMA maxTables st =
     (let schemaName = getTargetSchema env_DB_SCHEMA;
          (tablesAll, st1) = getTables db schemaName st;
          (primaryKeys, st2) = getPrimaryKeys db schemaName st1;
          (foreignKeys, st3) = getForeignKeys db schemaName st2
      in case tablesAll of
           Inl e \<Rightarrow> (Inl e, st3)
         | Inr tablesAll \<Rightarrow>
             (case primaryKeys of
                Inl e \<Rightarrow> (Inl e, st3)
              | Inr primaryKeys \<Rightarrow>
                  (case foreignKeys of
                     Inl e \<Rightarrow> (Inl e, st3)
                   | Inr foreignKeys \<Rightarrow>
                       (let tables =
                              (case maxTables of
                                 None \<Rightarrow> tablesAll
                               | Some m \<Rightarrow> if m = 0 then tablesAll else slice0 tablesAll m)
                        in (Inr (Content \<lparr>c_schema = schemaName, c_tables = tables,
                               c_primaryKeys = primaryKeys, c_foreignKeys = foreignKeys,
                               c_note = ''All results are filtered to the configured schema.''\<rparr>),
                            st3)))))"

section \<open>The server factory (server.ts)\<close>

text \<open>
  A server is its name, its version and the tools registered so far, in the order of
  registration; \<open>registerTool\<close> adds one under its name. Each tool carries the handler
  that a call by that name runs.
\<close>

datatype Handler = DescribeTable | GetDatabaseContext | Echo | Select

record Tool =
  title :: string
  readOnlyHint :: bool
  handler :: Handler

record McpServer =
  name :: string
  version :: string
  registeredTools :: "(string \<times> Tool) list"

definition new_McpServer :: "string \<Rightarrow> string \<Rightarrow> McpServer" where
  "new_McpServer n v = \<lparr>name = n, version = v, registeredTools = []\<rparr>"

definition registerTool :: "string \<Rightarrow> Tool \<Rightarrow> McpServer \<Rightarrow> McpServer" where
  "registerTool toolName tool server =
     server\<lparr>registeredTools := registeredTools server @ [(toolName, tool)]\<rparr>"

definition registerSchemaTools :: "McpServer \<Rightarrow> McpServer" where
  "registerSchemaTools server =
     registerTool ''db.getDatabaseContext''
       \<lparr>title = ''Get complete database schema context'', readOnlyHint = True,
        handler = GetDatabaseContext\<rparr>
       (registerTool ''db.describeTable''
          \<lparr>title = ''Describe table structure'', readOnlyHint = True,
           handler = DescribeTable\<rparr>
          server)"

definition registerTestTools :: "McpServer \<Rightarrow> McpServer" where
  "registerTestTools server =
     registerTool ''sys.echo'' \<lparr>title = ''Echo Test'', readOnlyHint = True, handler = Echo\<rparr> server"

definition registerQueryTools :: "McpServer \<Rightarrow> McpServer" where
  "registerQueryTools server =
     registerTool ''db.select''
       \<lparr>title = ''Execute dynamic SELECT query'', readOnlyHint = True, handler = Select\<rparr>
       server"

definition createAdventureWorksServer :: McpServer where
  "createAdventureWorksServer =
     registerTestTools (registerSchemaTools (new_McpServer ''adventureworks-manager'' ''1.0.0''))"

definition tool_named :: "McpServer \<Rightarrow> string \<Rightarrow> Tool option" where
  \<comment> \<open>the tool a call by name reaches\<close>
  "tool_named server toolName = map_of (registeredTools server) toolName"

section \<open>The words of the specification\<close>


definition keyword :: "string \<Rightarrow> bool" where
  \<comment> \<open>a non-empty run of word characters\<close>
  "keyword w = (w \<noteq> [] \<and> list_all is_word_char w)"




section \<open>Reachable states and sample data\<close>

text \<open>
  In every state the calls can reach, a key of the column cache names a table of the
  cached table list: columns are stored only behind the existence check, and both
  caches are cleared together.
\<close>

definition cache_inv :: "string \<Rightarrow> State \<Rightarrow> bool" where
  "cache_inv schemaName st =
     (\<forall>k cols. columnsCache st k = Some cols \<longrightarrow>
        (\<exists>ts. tablesCache st = Some ts
           \<and> (\<exists>t \<in> set ts. k = cacheKey schemaName (tableName t) \<and> schema t = schemaName)))"

definition sample_db :: Database where
  "sample_db =
     \<lparr>tables_rows = (\<lambda>s. Inr [\<lparr>tableName = ''Order'', schema = ''SalesLT''\<rparr>,
                              \<lparr>tableName = ''Product'', schema = ''SalesLT''\<rparr>]),
      columns_rows = (\<lambda>s t. Inr [\<lparr>columnName = t @ ''ID'', dataType = ''int'', isNullable = NO,
                                  maxLength = None, precision = Some 10, scale = Some 0\<rparr>]),
      primaryKeys_rows = (\<lambda>s. Inr [\<lparr>pk_tableName = ''Order'', pk_columnName = ''LineID'', keyOrdinal = 2\<rparr>,
                                   \<lparr>pk_tableName = ''Product'', pk_columnName = ''ProductID'', keyOrdinal = 1\<rparr>,
                                   \<lparr>pk_tableName = ''Order'', pk_columnName = ''OrderID'', keyOrdinal = 1\<rparr>]),
      foreignKeys_rows = (\<lambda>s. Inr [])\<rparr>"

definition warm_state :: State where
  "warm_state =
     \<lparr>tablesCache = Some [\<lparr>tableName = ''Order'', schema = ''SalesLT''\<rparr>,
                          \<lparr>tableName = ''Product'', schema = ''SalesLT''\<rparr>],
      columnsCache = [''SalesLT.Product'' \<mapsto>
                        [\<lparr>columnName = ''ProductID'', dataType = ''int'', isNullable = NO,
                          maxLength = None, precision = Some 10, scale = Some 0\<rparr>]],
      issued = [TablesQuery ''SalesLT'', ColumnsQuery ''SalesLT'' ''Product'']\<rparr>"

definition failing_db :: Database where
  "failing_db =
     \<lparr>tables_rows = (\<lambda>s. Inl (Error ''connection lost'')),
      columns_rows = (\<lambda>s t. Inl (Error ''connection lost'')),
      primaryKeys_rows = (\<lambda>s. Inl (Error ''connection lost'')),
      foreignKeys_rows = (\<lambda>s. Inl (Error ''connection lost''))\<rparr>"

section \<open>Registration of the tools\<close>

text \<open>
  Claim C1. Every server that \<open>createAdventureWorksServer\<close> builds is said to have
  \<open>db.describeTable\<close>, \<open>db.getDatabaseContext\<close> and \<open>db.select\<close> registered. The
  factory calls \<open>registerSchemaTools\<close> and \<open>registerTestTools\<close> only: the server holds
  \<open>db.describeTable\<close>, \<open>db.getDatabaseContext\<close> and \<open>sys.echo\<close>, a call of \<open>db.select\<close>
  finds no tool, and \<open>registerQueryTools\<close>, which would add it, is never applied.
\<close>

theorem createAdventureWorksServer_tools:
  "map fst (registeredTools createAdventureWorksServer) =
     [''db.describeTable'', ''db.getDatabaseContext'', ''sys.echo'']
   \<and> tool_named createAdventureWorksServer ''db.select'' = None
   \<and> map fst (registeredTools (registerQueryTools createAdventureWorksServer)) =
     [''db.describeTable'', ''db.getDatabaseContext'', ''sys.echo'', ''db.select'']"
  by (simp add: createAdventureWorksServer_def registerTestTools_def registerSchemaTools_def
      registerQueryTools_def registerTool_def new_McpServer_def tool_named_def)

section \<open>The row cap of db.select\<close>

lemma guard_select_1: "db_select_guard ''SELECT 1'' = Inr ''SELECT 1''"
  by code_simp

text \<open>
  Claim C2, as stated: the cap is \<open>maxRows\<close> clamped into [1,200], and \<open>maxRows = 0\<close>
  yields \<open>cappedAt = 100\<close>. The handler computes \<open>Math.min(maxRows ?? 100, 200)\<close>, which
  has no lower bound and keeps a given 0: with \<open>maxRows = 0\<close> it runs the batch with
  \<open>cappedAt = 0\<close>. The input schema of the tool admits neither 0 nor 5000.
\<close>

theorem row_limit_zero:
  "row_limit (Some 0) = 0
   \<and> db_select (\<lambda>batch. Inr (Some [''r1'', ''r2''])) ''SELECT 1'' (Some 0)
       = Content \<lparr>rowCount = 2, cappedAt = 0, data = [''r1'', ''r2'']\<rparr>
   \<and> \<not> inputSchema_db_select ''SELECT 1'' (Some 0)
   \<and> \<not> inputSchema_db_select ''SELECT 1'' (Some 5000)"
  by code_simp

text \<open>
  Claim C2, amended: the cap is \<open>min (maxRows ?? 100) 200\<close>. It never exceeds 200
  (\<open>maxRows = 5000\<close> gives 200) and is 100 when \<open>maxRows\<close> is omitted; for every input the
  schema of the tool admits (\<open>maxRows\<close> omitted or an integer of [1,200]) it is
  \<open>maxRows\<close> itself or the default 100, hence within [1,200]; and every successful
  response reports it as \<open>cappedAt\<close>.
\<close>

theorem db_select_row_cap:
  "row_limit maxRows \<le> 200
   \<and> row_limit (Some 5000) = 200
   \<and> row_limit None = 100
   \<and> (inputSchema_db_select sql maxRows \<longrightarrow>
        1 \<le> row_limit maxRows
        \<and> row_limit maxRows = (case maxRows of None \<Rightarrow> 100 | Some m \<Rightarrow> m))
   \<and> (\<forall>p. db_select query sql maxRows = Content p \<longrightarrow> cappedAt p = row_limit maxRows)"
  by (auto simp: row_limit_def inputSchema_db_select_def db_select_def Let_def
      split: option.splits sum.splits exn.splits)

theorem db_select_row_cap_witness:
  "inputSchema_db_select ''SELECT 1'' (Some 50)
   \<and> row_limit (Some 50) = 50
   \<and> db_select (\<lambda>batch. Inr (Some [''r1''])) ''SELECT 1'' (Some 50)
       = Content \<lparr>rowCount = 1, cappedAt = 50, data = [''r1'']\<rparr>
   \<and> cappedAt \<lparr>rowCount = 1, cappedAt = 50, data = [''r1'']\<rparr> = row_limit (Some 50)"
proof -
  have schema_ok: "inputSchema_db_select ''SELECT 1'' (Some 50)"
    by (simp add: inputSchema_db_select_def)
  have run: "db_select (\<lambda>batch. Inr (Some [''r1''])) ''SELECT 1'' (Some 50)
       = Content \<lparr>rowCount = 1, cappedAt = 50, data = [''r1'']\<rparr>"
    by (simp add: db_select_def guard_select_1 row_limit_def)
  from db_select_row_cap [of "Some 50" "''SELECT 1''" "\<lambda>batch. Inr (Some [''r1''])"]
    schema_ok run
  show ?thesis by simp
qed

section \<open>The payload of a successful db.select\<close>

text \<open>
  Claim C10. In every successful response of \<open>db.select\<close> the field \<open>rowCount\<close> is the
  number of records of the field \<open>data\<close>; when the executor gives no recordset, the
  response has \<open>rowCount = 0\<close> and the empty list as \<open>data\<close>.
\<close>

theorem db_select_rowCount:
  "(db_select query sql maxRows = Content p \<longrightarrow> rowCount p = length (data p))
   \<and> (db_select_guard sql = Inr q \<and> query (cappedBatch (row_limit maxRows) q) = Inr None \<longrightarrow>
        db_select query sql maxRows
        = Content \<lparr>rowCount = 0, cappedAt = row_limit maxRows, data = []\<rparr>)"
  by (auto simp: db_select_def Let_def split: option.splits sum.splits exn.splits)

theorem db_select_rowCount_witness:
  "db_select (\<lambda>batch. Inr (Some [''r1'', ''r2'', ''r3''])) ''SELECT 1'' None
     = Content \<lparr>rowCount = 3, cappedAt = 100, data = [''r1'', ''r2'', ''r3'']\<rparr>
   \<and> rowCount \<lparr>rowCount = 3, cappedAt = 100, data = [''r1'', ''r2'', ''r3'']\<rparr>
     = length [''r1'', ''r2'', ''r3'']
   \<and> db_select (\<lambda>batch. Inr None) ''SELECT 1'' None
     = Content \<lparr>rowCount = 0, cappedAt = 100, data = ([] :: string list)\<rparr>"
proof -
  have run: "db_select (\<lambda>batch. Inr (Some [''r1'', ''r2'', ''r3''])) ''SELECT 1'' None
     = Content \<lparr>rowCount = 3, cappedAt = 100, data = [''r1'', ''r2'', ''r3'']\<rparr>"
    by (simp add: db_select_def guard_select_1 row_limit_def)
  have lim: "row_limit None = 100"
    by (simp add: row_limit_def)
  from db_select_rowCount [of "\<lambda>batch. Inr (Some [''r1'', ''r2'', ''r3''])" "''SELECT 1''" None
      "\<lparr>rowCount = 3, cappedAt = 100, data = [''r1'', ''r2'', ''r3'']\<rparr>"] run
  have counted: "rowCount \<lparr>rowCount = 3, cappedAt = 100, data = [''r1'', ''r2'', ''r3'']\<rparr>
     = length [''r1'', ''r2'', ''r3'']"
    by simp
  from db_select_rowCount [of "\<lambda>batch. Inr (None :: string list option)" "''SELECT 1''" None _
      "''SELECT 1''"] guard_select_1 lim
  have no_recordset: "db_select (\<lambda>batch. Inr None) ''SELECT 1'' None
     = Content \<lparr>rowCount = 0, cappedAt = 100, data = ([] :: string list)\<rparr>"
    by simp
  from run counted no_recordset show ?thesis by blast
qed

section \<open>The existence check of getTableSchema\<close>

lemma cache_inv_initial: "cache_inv schemaName initial_state"
  by (simp add: cache_inv_def initial_state_def)

lemma getTables_cases:
  "getTables db schemaName st = (r, st1) \<Longrightarrow>
     columnsCache st1 = columnsCache st
     \<and> (case tablesCache st of
          Some cached \<Rightarrow> r = Inr cached \<and> st1 = st
        | None \<Rightarrow>
            issued st1 = issued st @ [TablesQuery schemaName]
            \<and> (case r of Inl e \<Rightarrow> tablesCache st1 = None | Inr ts \<Rightarrow> tablesCache st1 = Some ts))"
  by (auto simp: getTables_def issue_def Let_def split: option.splits sum.splits)

lemma getTables_inv:
  assumes "cache_inv schemaName st" and "getTables db schemaName st = (r, st1)"
  shows "cache_inv schemaName st1"
proof (cases "tablesCache st")
  case None
  with assms(1) have "columnsCache st = Map.empty"
    by (auto simp: cache_inv_def)
  with getTables_cases [OF assms(2)] show ?thesis
    by (simp add: cache_inv_def)
next
  case (Some cached)
  with getTables_cases [OF assms(2)] assms(1) show ?thesis
    by simp
qed

lemma getTables_result_cached:
  "getTables db schemaName st = (Inr ts, st1) \<Longrightarrow> tablesCache st1 = Some ts"
  by (auto simp: getTables_def issue_def Let_def split: option.splits sum.splits)

lemma getTableSchema_inv:
  assumes inv: "cache_inv schemaName st"
  shows "cache_inv schemaName (snd (getTableSchema db schemaName tn st))"
proof (cases "columnsCache st (cacheKey schemaName tn)")
  case (Some cached)
  with inv show ?thesis
    by (simp add: getTableSchema_def)
next
  case None
  obtain r st1 where gt: "getTables db schemaName st = (r, st1)"
    by (cases "getTables db schemaName st")
  have inv1: "cache_inv schemaName st1"
    using inv gt by (rule getTables_inv)
  show ?thesis
  proof (cases r)
    case (Inl e)
    with None gt inv1 show ?thesis
      by (simp add: getTableSchema_def)
  next
    case (Inr tables)
    with gt have cached: "tablesCache st1 = Some tables"
      by (simp add: getTables_result_cached)
    show ?thesis
    proof (cases "list_ex (\<lambda>t. tableName t = tn \<and> schema t = schemaName) tables")
      case False
      with None gt Inr inv1 show ?thesis
        by (simp add: getTableSchema_def)
    next
      case True
      then obtain t where t: "t \<in> set tables" "tableName t = tn" "schema t = schemaName"
        by (auto simp: list_ex_iff)
      from inv1 cached t have
        "cache_inv schemaName (issue (ColumnsQuery schemaName tn) st1
            \<lparr>columnsCache := (columnsCache st1)(cacheKey schemaName tn \<mapsto> rows)\<rparr>)" for rows
        by (auto simp: cache_inv_def issue_def)
      moreover from inv1 have "cache_inv schemaName (issue (ColumnsQuery schemaName tn) st1)"
        by (simp add: cache_inv_def issue_def)
      ultimately show ?thesis
        using None gt Inr True
        by (simp add: getTableSchema_def Let_def issue_def split: sum.splits)
    qed
  qed
qed

lemma call_inv: "cache_inv schemaName st \<Longrightarrow> cache_inv schemaName (call schemaName c st)"
proof (cases c)
  case (Pair db op)
  assume inv: "cache_inv schemaName st"
  show ?thesis
  proof (cases op)
    case CallGetTables
    with Pair inv show ?thesis
      by (cases "getTables db schemaName st") (simp add: getTables_inv)
  next
    case (CallGetTableSchema tn)
    with Pair inv show ?thesis
      by (simp add: getTableSchema_inv)
  next
    case CallGetPrimaryKeys
    with Pair inv show ?thesis
      by (simp add: getPrimaryKeys_def issue_def cache_inv_def)
  next
    case CallGetForeignKeys
    with Pair inv show ?thesis
      by (simp add: getForeignKeys_def issue_def cache_inv_def)
  next
    case CallClearCache
    with Pair show ?thesis
      by (simp add: clearCache_def cache_inv_def)
  qed
qed

lemma calls_inv: "cache_inv schemaName st \<Longrightarrow> cache_inv schemaName (calls schemaName cs st)"
  by (induction cs arbitrary: st) (simp_all add: call_inv)

lemma warm_state_reached:
  "warm_state = calls ''SalesLT'' [(sample_db, CallGetTableSchema ''Product'')] initial_state"
  by (simp add: warm_state_def getTableSchema_def getTables_def sample_db_def initial_state_def
      issue_def cacheKey_def)

text \<open>
  Claim C7. In every state the process can reach, for every table name that is not in
  the table list \<open>getTables\<close> gives for the configured schema, \<open>getTableSchema\<close> throws
  the error "Table not found or not allowed: schema.table", which names both, and issues
  no column query: the only query it may have issued is the table query of a cache miss.
\<close>

theorem getTableSchema_not_found:
  assumes reach: "st = calls schemaName cs initial_state"
    and tables: "getTables db schemaName st = (Inr tables, st1)"
    and absent: "\<not> list_ex (\<lambda>t. tableName t = tn \<and> schema t = schemaName) tables"
  shows "getTableSchema db schemaName tn st
           = (Inl (Error (''Table not found or not allowed: '' @ schemaName @ ''.'' @ tn)), st1)
         \<and> (issued st1 = issued st \<or> issued st1 = issued st @ [TablesQuery schemaName])"
proof -
  have inv: "cache_inv schemaName st"
    unfolding reach by (rule calls_inv) (rule cache_inv_initial)
  have miss: "columnsCache st (cacheKey schemaName tn) = None"
  proof (rule ccontr)
    assume "columnsCache st (cacheKey schemaName tn) \<noteq> None"
    then obtain cols where "columnsCache st (cacheKey schemaName tn) = Some cols"
      by auto
    with inv obtain ts t where ts: "tablesCache st = Some ts" and t: "t \<in> set ts"
      "cacheKey schemaName tn = cacheKey schemaName (tableName t)" "schema t = schemaName"
      by (auto simp: cache_inv_def)
    from ts tables have "tables = ts"
      by (simp add: getTables_def)
    moreover from t(2) have "tableName t = tn"
      by (simp add: cacheKey_def)
    ultimately show False
      using absent t by (auto simp: list_ex_iff)
  qed
  from miss tables absent have "getTableSchema db schemaName tn st
           = (Inl (Error (''Table not found or not allowed: '' @ schemaName @ ''.'' @ tn)), st1)"
    by (simp add: getTableSchema_def not_found_def)
  moreover from getTables_cases [OF tables]
  have "issued st1 = issued st \<or> issued st1 = issued st @ [TablesQuery schemaName]"
    by (auto split: option.splits)
  ultimately show ?thesis by blast
qed

theorem getTableSchema_not_found_witness:
  "warm_state = calls ''SalesLT'' [(sample_db, CallGetTableSchema ''Product'')] initial_state
   \<and> getTables sample_db ''SalesLT'' warm_state
       = (Inr [\<lparr>tableName = ''Order'', schema = ''SalesLT''\<rparr>,
               \<lparr>tableName = ''Product'', schema = ''SalesLT''\<rparr>], warm_state)
   \<and> \<not> list_ex (\<lambda>t. tableName t = ''Person'' \<and> schema t = ''SalesLT'')
         [\<lparr>tableName = ''Order'', schema = ''SalesLT''\<rparr>,
          \<lparr>tableName = ''Product'', schema = ''SalesLT''\<rparr>]
   \<and> getTableSchema sample_db ''SalesLT'' ''Person'' warm_state
       = (Inl (Error ''Table not found or not allowed: SalesLT.Person''), warm_state)"
proof -
  have tables: "getTables sample_db ''SalesLT'' warm_state
       = (Inr [\<lparr>tableName = ''Order'', schema = ''SalesLT''\<rparr>,
               \<lparr>tableName = ''Product'', schema = ''SalesLT''\<rparr>], warm_state)"
    by (simp add: getTables_def warm_state_def)
  have absent: "\<not> list_ex (\<lambda>t. tableName t = ''Person'' \<and> schema t = ''SalesLT'')
         [\<lparr>tableName = ''Order'', schema = ''SalesLT''\<rparr>,
          \<lparr>tableName = ''Product'', schema = ''SalesLT''\<rparr>]"
    by simp
  from getTableSchema_not_found [OF warm_state_reached tables absent]
    warm_state_reached tables absent
  show ?thesis by simp
qed

section \<open>The handler of db.describeTable\<close>


section \<open>Stability of the caches\<close>

lemma getTables_hit: "tablesCache st = Some v \<Longrightarrow> getTables db schemaName st = (Inr v, st)"
  by (simp add: getTables_def)

lemma getTableSchema_hit:
  "columnsCache st (cacheKey schemaName tn) = Some cols \<Longrightarrow>
     getTableSchema db schemaName tn st = (Inr cols, st)"
  by (simp add: getTableSchema_def)

lemma getTables_keeps:
  "(tablesCache st = Some v \<longrightarrow> tablesCache (snd (getTables db schemaName st)) = Some v)
   \<and> columnsCache (snd (getTables db schemaName st)) = columnsCache st"
  by (simp add: getTables_def issue_def Let_def split: option.splits sum.splits)

lemma getTableSchema_keeps:
  "(tablesCache st = Some v \<longrightarrow> tablesCache (snd (getTableSchema db schemaName tn st)) = Some v)
   \<and> (columnsCache st k = Some cols \<longrightarrow>
        columnsCache (snd (getTableSchema db schemaName tn st)) k = Some cols)"
  by (auto simp: getTableSchema_def getTables_def issue_def Let_def
      split: option.splits sum.splits prod.splits)

lemma call_keeps:
  assumes "snd c \<noteq> CallClearCache"
  shows "(tablesCache st = Some v \<longrightarrow> tablesCache (call schemaName c st) = Some v)
   \<and> (columnsCache st k = Some cols \<longrightarrow> columnsCache (call schemaName c st) k = Some cols)"
proof (cases c)
  case (Pair db op)
  with assms show ?thesis
    using getTables_keeps [of st v db schemaName] getTableSchema_keeps [of st v db schemaName _ k cols]
    by (cases op) (simp_all add: getPrimaryKeys_def getForeignKeys_def issue_def)
qed

lemma calls_keep:
  assumes "CallClearCache \<notin> snd ` set cs"
  shows "(tablesCache st = Some v \<longrightarrow> tablesCache (calls schemaName cs st) = Some v)
   \<and> (columnsCache st k = Some cols \<longrightarrow> columnsCache (calls schemaName cs st) k = Some cols)"
  using assms
proof (induction cs arbitrary: st)
  case Nil
  then show ?case by simp
next
  case (Cons c cs)
  then have c: "snd c \<noteq> CallClearCache" and cs: "CallClearCache \<notin> snd ` set cs"
    by auto
  from call_keeps [OF c, of st v schemaName k cols] Cons.IH [OF cs, of "call schemaName c st"]
  show ?case by simp
qed

text \<open>
  Claim C8. Once the table cache holds a value (respectively the column cache holds one
  for the key \<open>schema.tableName\<close>), then after any sequence of calls without
  \<open>clearCache\<close>, whatever the backing store answers meanwhile, \<open>getTables\<close> (respectively
  \<open>getTableSchema\<close> for that key) returns that very value and leaves the state as it
  is, the record of issued queries included; \<open>clearCache\<close> empties both caches.
\<close>

theorem cache_stable:
  "(CallClearCache \<notin> snd ` set cs \<and> tablesCache st = Some v \<longrightarrow>
      getTables db schemaName (calls schemaName cs st) = (Inr v, calls schemaName cs st))
   \<and> (CallClearCache \<notin> snd ` set cs \<and> columnsCache st (cacheKey schemaName tn) = Some cols \<longrightarrow>
      getTableSchema db schemaName tn (calls schemaName cs st) = (Inr cols, calls schemaName cs st))
   \<and> tablesCache (clearCache st) = None
   \<and> columnsCache (clearCache st) = Map.empty"
  using calls_keep [of cs st v schemaName "cacheKey schemaName tn" cols]
  by (auto simp: getTables_hit getTableSchema_hit clearCache_def)

theorem cache_stable_witness:
  "CallClearCache \<notin> snd ` set [(failing_db, CallGetPrimaryKeys), (failing_db, CallGetTables)]
   \<and> tablesCache warm_state = Some [\<lparr>tableName = ''Order'', schema = ''SalesLT''\<rparr>,
                                    \<lparr>tableName = ''Product'', schema = ''SalesLT''\<rparr>]
   \<and> columnsCache warm_state (cacheKey ''SalesLT'' ''Product'')
       = Some [\<lparr>columnName = ''ProductID'', dataType = ''int'', isNullable = NO,
                maxLength = None, precision = Some 10, scale = Some 0\<rparr>]
   \<and> getTables failing_db ''SalesLT''
        (calls ''SalesLT'' [(failing_db, CallGetPrimaryKeys), (failing_db, CallGetTables)] warm_state)
       = (Inr [\<lparr>tableName = ''Order'', schema = ''SalesLT''\<rparr>,
               \<lparr>tableName = ''Product'', schema = ''SalesLT''\<rparr>],
          calls ''SalesLT'' [(failing_db, CallGetPrimaryKeys), (failing_db, CallGetTables)] warm_state)
   \<and> getTableSchema failing_db ''SalesLT'' ''Product''
        (calls ''SalesLT'' [(failing_db, CallGetPrimaryKeys), (failing_db, CallGetTables)] warm_state)
       = (Inr [\<lparr>columnName = ''ProductID'', dataType = ''int'', isNullable = NO,
                maxLength = None, precision = Some 10, scale = Some 0\<rparr>],
          calls ''SalesLT'' [(failing_db, CallGetPrimaryKeys), (failing_db, CallGetTables)] warm_state)
   \<and> tablesCache (clearCache warm_state) = None
   \<and> columnsCache (clearCache warm_state) (cacheKey ''SalesLT'' ''Product'') = None"
proof -
  have no_clear:
    "CallClearCache \<notin> snd ` set [(failing_db, CallGetPrimaryKeys), (failing_db, CallGetTables)]"
    by simp
  have tables: "tablesCache warm_state = Some [\<lparr>tableName = ''Order'', schema = ''SalesLT''\<rparr>,
                                    \<lparr>tableName = ''Product'', schema = ''SalesLT''\<rparr>]"
    by (simp add: warm_state_def)
  have columns: "columnsCache warm_state (cacheKey ''SalesLT'' ''Product'')
       = Some [\<lparr>columnName = ''ProductID'', dataType = ''int'', isNullable = NO,
                maxLength = None, precision = Some 10, scale = Some 0\<rparr>]"
    by (simp add: warm_state_def cacheKey_def)
  from cache_stable [of "[(failing_db, CallGetPrimaryKeys), (failing_db, CallGetTables)]"
      warm_state _ failing_db "''SalesLT''" "''Product''"] no_clear tables columns
  show ?thesis by simp
qed

section \<open>The primary keys of db.describeTable\<close>

lemma mset_insert_by: "mset (insert_by f x ys) = add_mset x (mset ys)"
  by (induction ys) simp_all

lemma mset_js_sort: "mset (js_sort f xs) = mset xs"
  by (induction xs) (simp_all add: js_sort_def mset_insert_by)

lemma set_insert_by: "set (insert_by f x ys) = insert x (set ys)"
  by (induction ys) auto

lemma sorted_insert_by_key:
  "sorted (map (k :: 'a \<Rightarrow> int) ys) \<Longrightarrow> sorted (map k (insert_by (\<lambda>a b. k a - k b) x ys))"
  by (induction ys) (auto simp: set_insert_by)

lemma sorted_js_sort_key: "sorted (map (k :: 'a \<Rightarrow> int) (js_sort (\<lambda>a b. k a - k b) xs))"
  by (induction xs) (simp_all add: js_sort_def sorted_insert_by_key)

lemma describeTable_content:
  assumes "describeTable db schemaName tn st = (Inr (Content p), st')"
  shows "\<exists>cols pks. fst (getTableSchema db schemaName tn st) = Inr cols
           \<and> primaryKeys_rows db schemaName = Inr pks
           \<and> p = \<lparr>d_tableName = tn, d_columns = cols,
                   d_primaryKeys = js_sort (\<lambda>a b. keyOrdinal a - keyOrdinal b)
                                     (filter (\<lambda>pk. pk_tableName pk = tn) pks)\<rparr>"
  using assms
  by (auto simp: describeTable_def getPrimaryKeys_def Let_def split: prod.splits sum.splits)

text \<open>
  Claim C9. In every response of \<open>db.describeTable\<close> for a table \<open>t\<close>, the field
  \<open>primaryKeys\<close> holds exactly the rows of the primary-key list of the backing store
  whose \<open>tableName\<close> is \<open>t\<close> (as a multiset), in ascending order of \<open>keyOrdinal\<close>; its
  sequence of ordinals is the sorted one, whatever the order of the rows in the store.
\<close>

theorem describeTable_primaryKeys:
  assumes "describeTable db schemaName tn st = (Inr (Content p), st')"
  shows "\<exists>pks. primaryKeys_rows db schemaName = Inr pks
           \<and> mset (d_primaryKeys p) = mset (filter (\<lambda>pk. pk_tableName pk = tn) pks)
           \<and> sorted (map keyOrdinal (d_primaryKeys p))
           \<and> map keyOrdinal (d_primaryKeys p)
               = sort (map keyOrdinal (filter (\<lambda>pk. pk_tableName pk = tn) pks))"
proof -
  from describeTable_content [OF assms] obtain cols pks where
    pks: "primaryKeys_rows db schemaName = Inr pks" and
    p: "d_primaryKeys p = js_sort (\<lambda>a b. keyOrdinal a - keyOrdinal b)
                                     (filter (\<lambda>pk. pk_tableName pk = tn) pks)"
    by auto
  have m: "mset (d_primaryKeys p) = mset (filter (\<lambda>pk. pk_tableName pk = tn) pks)"
    by (simp add: p mset_js_sort)
  have s: "sorted (map keyOrdinal (d_primaryKeys p))"
    unfolding p by (rule sorted_js_sort_key)
  from m have "mset (map keyOrdinal (d_primaryKeys p))
      = mset (map keyOrdinal (filter (\<lambda>pk. pk_tableName pk = tn) pks))"
    by simp
  with s have "map keyOrdinal (d_primaryKeys p)
               = sort (map keyOrdinal (filter (\<lambda>pk. pk_tableName pk = tn) pks))"
    by (metis properties_for_sort)
  with pks m s show ?thesis by blast
qed

theorem describeTable_primaryKeys_witness:
  "describeTable sample_db ''SalesLT'' ''Order'' warm_state
     = (Inr (Content
          \<lparr>d_tableName = ''Order'',
           d_columns = [\<lparr>columnName = ''OrderID'', dataType = ''int'', isNullable = NO,
                         maxLength = None, precision = Some 10, scale = Some 0\<rparr>],
           d_primaryKeys =
             [\<lparr>pk_tableName = ''Order'', pk_columnName = ''OrderID'', keyOrdinal = 1\<rparr>,
              \<lparr>pk_tableName = ''Order'', pk_columnName = ''LineID'', keyOrdinal = 2\<rparr>]\<rparr>),
        warm_state
          \<lparr>columnsCache := (columnsCache warm_state)
             (''SalesLT.Order'' \<mapsto>
                [\<lparr>columnName = ''OrderID'', dataType = ''int'', isNullable = NO,
                  maxLength = None, precision = Some 10, scale = Some 0\<rparr>]),
           issued := issued warm_state
             @ [ColumnsQuery ''SalesLT'' ''Order'', PrimaryKeysQuery ''SalesLT'']\<rparr>)
   \<and> primaryKeys_rows sample_db ''SalesLT''
     = Inr [\<lparr>pk_tableName = ''Order'', pk_columnName = ''LineID'', keyOrdinal = 2\<rparr>,
            \<lparr>pk_tableName = ''Product'', pk_columnName = ''ProductID'', keyOrdinal = 1\<rparr>,
            \<lparr>pk_tableName = ''Order'', pk_columnName = ''OrderID'', keyOrdinal = 1\<rparr>]
   \<and> sorted (map keyOrdinal
        [\<lparr>pk_tableName = ''Order'', pk_columnName = ''OrderID'', keyOrdinal = 1\<rparr>,
         \<lparr>pk_tableName = ''Order'', pk_columnName = ''LineID'', keyOrdinal = 2\<rparr>])"
proof -
  have run: "describeTable sample_db ''SalesLT'' ''Order'' warm_state
     = (Inr (Content
          \<lparr>d_tableName = ''Order'',
           d_columns = [\<lparr>columnName = ''OrderID'', dataType = ''int'', isNullable = NO,
                         maxLength = None, precision = Some 10, scale = Some 0\<rparr>],
           d_primaryKeys =
             [\<lparr>pk_tableName = ''Order'', pk_columnName = ''OrderID'', keyOrdinal = 1\<rparr>,
              \<lparr>pk_tableName = ''Order'', pk_columnName = ''LineID'', keyOrdinal = 2\<rparr>]\<rparr>),
        warm_state
          \<lparr>columnsCache := (columnsCache warm_state)
             (''SalesLT.Order'' \<mapsto>
                [\<lparr>columnName = ''OrderID'', dataType = ''int'', isNullable = NO,
                  maxLength = None, precision = Some 10, scale = Some 0\<rparr>]),
           issued := issued warm_state
             @ [ColumnsQuery ''SalesLT'' ''Order'', PrimaryKeysQuery ''SalesLT'']\<rparr>)"
    by (simp add: describeTable_def getTableSchema_def getTables_def getPrimaryKeys_def
        sample_db_def warm_state_def issue_def cacheKey_def js_sort_def Let_def)
  have rows: "primaryKeys_rows sample_db ''SalesLT''
     = Inr [\<lparr>pk_tableName = ''Order'', pk_columnName = ''LineID'', keyOrdinal = 2\<rparr>,
            \<lparr>pk_tableName = ''Product'', pk_columnName = ''ProductID'', keyOrdinal = 1\<rparr>,
            \<lparr>pk_tableName = ''Order'', pk_columnName = ''OrderID'', keyOrdinal = 1\<rparr>]"
    by (simp add: sample_db_def)
  from describeTable_primaryKeys [OF run] rows run
  show ?thesis by simp
qed

section \<open>Whole words and the regular expressions\<close>


























section \<open>The statement-count check\<close>






section \<open>The statement-shape check\<close>





section \<open>The forbidden-keyword check\<close>




end
